theory Spec2Isabelle
  imports Main
begin

section \<open>Request data\<close>

text \<open>
  The values a request field can hold once the body parser has run: \<open>Undefined\<close> for a
  field that is absent, and the JSON values \<open>null\<close>, booleans, numbers, strings and arrays.
  Numbers are the integers of magnitude below \<open>2^53\<close>, which JavaScript holds exactly and
  prints in plain decimal digits (other numbers have no exact rendering here), strings are
  ASCII (\<open>length\<close> then counts what \<open>.length\<close> counts), and object-valued fields are not
  part of the model.
\<close>

datatype jsvalue =
    Undefined
  | Null
  | JBool bool
  | JNum int
  | JStr string
  | JArr "jsvalue list"

text \<open>The five places of a request that \<open>check\<close> reads; \<open>body\<close> reads the first only.\<close>

datatype location = Body | Cookies | Headers | Params | Query

record request =
  req_body :: "(string \<times> jsvalue) list"
  req_cookies :: "(string \<times> jsvalue) list"
  req_headers :: "(string \<times> jsvalue) list"
  req_params :: "(string \<times> jsvalue) list"
  req_query :: "(string \<times> jsvalue) list"

fun at_location :: "request \<Rightarrow> location \<Rightarrow> (string \<times> jsvalue) list" where
  "at_location req Body = req_body req"
| "at_location req Cookies = req_cookies req"
| "at_location req Headers = req_headers req"
| "at_location req Params = req_params req"
| "at_location req Query = req_query req"

definition toLowerCase :: "string \<Rightarrow> string" where
  "toLowerCase s =
     map (\<lambda>c. case map_of (zip ''ABCDEFGHIJKLMNOPQRSTUVWXYZ'' ''abcdefghijklmnopqrstuvwxyz'') c of
                 None \<Rightarrow> c | Some l \<Rightarrow> l) s"

text \<open>
  The path under which a field is read at a location, and reported in an error: header
  names are in lower case.
\<close>

definition instance_path :: "location \<Rightarrow> string \<Rightarrow> string" where
  "instance_path loc field = (if loc = Headers then toLowerCase field else field)"

text \<open>Reading a field: a key that is not there reads as \<open>undefined\<close>.\<close>

definition field_value :: "request \<Rightarrow> location \<Rightarrow> string \<Rightarrow> jsvalue" where
  "field_value req loc field =
     (case map_of (at_location req loc) (instance_path loc field) of
        None \<Rightarrow> Undefined
      | Some v \<Rightarrow> v)"

section \<open>JavaScript conversions used by the validators\<close>

function string_of_nat :: "nat \<Rightarrow> string" where
  "string_of_nat n =
     (if n < 10 then [''0123456789'' ! n]
      else string_of_nat (n div 10) @ [''0123456789'' ! (n mod 10)])"
  by pat_completeness auto
termination
  by (relation "measure id") auto

definition string_of_int :: "int \<Rightarrow> string" where
  "string_of_int i = (if i < 0 then CHR ''-'' # string_of_nat (nat (- i)) else string_of_nat (nat i))"

fun join :: "string list \<Rightarrow> string" where
  "join [] = []"
| "join [s] = s"
| "join (s # t # ss) = s @ CHR '','' # join (t # ss)"

text \<open>
  \<open>String(v)\<close>. An array is its elements joined by commas, where \<open>null\<close> and \<open>undefined\<close>
  elements contribute the empty string.
\<close>

fun js_String :: "jsvalue \<Rightarrow> string" where
  "js_String Undefined = ''undefined''"
| "js_String Null = ''null''"
| "js_String (JBool b) = (if b then ''true'' else ''false'')"
| "js_String (JNum i) = string_of_int i"
| "js_String (JStr s) = s"
| "js_String (JArr xs) =
     join (map (\<lambda>x. if x = Undefined \<or> x = Null then [] else js_String x) xs)"

text \<open>
  The validation library's \<open>toString(value)\<close>, applied to a value before a standard
  validator sees it: \<open>null\<close> and \<open>undefined\<close> stand for the empty string, everything else,
  an array included, for \<open>String(value)\<close>.
\<close>

fun toString :: "jsvalue \<Rightarrow> string" where
  "toString Undefined = []"
| "toString Null = []"
| "toString v = js_String v"

text \<open>
  \<open>value.length\<close>: a \<open>TypeError\<close> on \<open>undefined\<close> and \<open>null\<close>, the number of characters of a
  string, the number of elements of an array, and \<open>undefined\<close> (here \<open>None\<close>) on a boolean or
  a number.
\<close>

datatype thrown = TypeError | Error string

fun js_length :: "jsvalue \<Rightarrow> thrown + nat option" where
  "js_length Undefined = Inl TypeError"
| "js_length Null = Inl TypeError"
| "js_length (JBool b) = Inr None"
| "js_length (JNum i) = Inr None"
| "js_length (JStr s) = Inr (Some (length s))"
| "js_length (JArr xs) = Inr (Some (length xs))"

text \<open>\<open>len < n\<close> for what \<open>.length\<close> gave: \<open>undefined < n\<close> is false.\<close>

fun js_less :: "nat option \<Rightarrow> nat \<Rightarrow> bool" where
  "js_less None n = False"
| "js_less (Some l) n = (l < n)"

section \<open>The standard validators\<close>

definition is_digit :: "char \<Rightarrow> bool" where
  "is_digit c = (c \<in> set ''0123456789'')"

text \<open>\<open>isEmpty\<close>, \<open>isNumeric\<close> and \<open>isBoolean\<close> on strings, with their default options.\<close>

datatype standard_validator = IsEmpty | IsNumeric | IsBoolean

definition strip_sign :: "string \<Rightarrow> string" where
  "strip_sign s = (case s of c # t \<Rightarrow> if c = CHR ''+'' \<or> c = CHR ''-'' then t else s | [] \<Rightarrow> s)"

text \<open>The pattern \<open>^[+-]?([0-9]*[.])?[0-9]+$\<close>.\<close>

definition numeric_pattern :: "string \<Rightarrow> bool" where
  "numeric_pattern s =
     (let t = strip_sign s; a = takeWhile is_digit t; r = dropWhile is_digit t in
        case r of
          [] \<Rightarrow> a \<noteq> []
        | c # b \<Rightarrow> c = CHR ''.'' \<and> b \<noteq> [] \<and> list_all is_digit b)"

text \<open>The characters that the pattern admits at all.\<close>

definition numeric_char :: "char \<Rightarrow> bool" where
  "numeric_char c = (c \<in> set ''0123456789+-.'')"

fun validate :: "standard_validator \<Rightarrow> string \<Rightarrow> bool" where
  "validate IsEmpty s = (length s = 0)"
| "validate IsNumeric s = numeric_pattern s"
| "validate IsBoolean s = (s \<in> set [''true'', ''false'', ''1'', ''0''])"

section \<open>Validation chains\<close>

text \<open>
  The router imports \<open>check\<close> and \<open>body\<close> from \<open>express-validator\<close>, a library that is not
  among the files of the repository. The definitions of this section and of the two before
  it follow that library (version 7) and the string validators of \<open>validator.js\<close>
  that it calls.

  A chain is what \<open>check(field, message)\<close> or \<open>body(field)\<close> returns and what each chained
  call extends: the field, the locations it is read from, the chain's message, the flag set
  by \<open>.not()\<close> for the next validator, and the validators added so far.
\<close>

datatype context_item =
    StandardValidation standard_validator bool
  | CustomValidation "jsvalue \<Rightarrow> thrown + bool" bool

record validation_chain =
  field :: string
  locations :: "location list"
  message :: "string option"
  negateNext :: bool
  stack :: "context_item list"

definition check :: "string \<Rightarrow> string \<Rightarrow> validation_chain" where
  "check f m =
     \<lparr>field = f, locations = [Body, Cookies, Headers, Params, Query], message = Some m,
      negateNext = False, stack = []\<rparr>"

definition body :: "string \<Rightarrow> validation_chain" where
  "body f = \<lparr>field = f, locations = [Body], message = None, negateNext = False, stack = []\<rparr>"

definition not_v :: "validation_chain \<Rightarrow> validation_chain" where
  "not_v c = c\<lparr>negateNext := True\<rparr>"

definition addItem :: "(bool \<Rightarrow> context_item) \<Rightarrow> validation_chain \<Rightarrow> validation_chain" where
  "addItem item c = c\<lparr>stack := stack c @ [item (negateNext c)], negateNext := False\<rparr>"

definition isEmpty :: "validation_chain \<Rightarrow> validation_chain" where
  "isEmpty = addItem (StandardValidation IsEmpty)"

definition isNumeric :: "validation_chain \<Rightarrow> validation_chain" where
  "isNumeric = addItem (StandardValidation IsNumeric)"

definition isBoolean :: "validation_chain \<Rightarrow> validation_chain" where
  "isBoolean = addItem (StandardValidation IsBoolean)"

definition custom :: "(jsvalue \<Rightarrow> thrown + bool) \<Rightarrow> validation_chain \<Rightarrow> validation_chain" where
  "custom validator = addItem (CustomValidation validator)"

subsection \<open>Running a chain against a request\<close>

text \<open>
  The message of a recorded error is a text, or the engine's own text for a \<open>TypeError\<close>
  (which differs between engine versions and is kept abstract).
\<close>

datatype error_message = Text string | TypeErrorText

record validation_error =
  err_location :: location
  err_param :: string
  err_msg :: error_message
  err_value :: jsvalue

text \<open>One instance of the field per location of the chain.\<close>

definition selectFields :: "request \<Rightarrow> validation_chain \<Rightarrow> (location \<times> jsvalue) list" where
  "selectFields req c = map (\<lambda>loc. (loc, field_value req loc (field c))) (locations c)"

text \<open>
  With several locations, the instances that have a value are the ones validated; when no
  location has the field, the first instance is kept, so that its absence is reported.
\<close>

definition getData :: "(location \<times> jsvalue) list \<Rightarrow> (location \<times> jsvalue) list" where
  "getData instances =
     (if length instances > 1 \<and> length (remdups (map fst instances)) > 1 then
        (let withValue = filter (\<lambda>i. snd i \<noteq> Undefined) instances in
           if withValue \<noteq> [] then withValue else [hd instances])
      else instances)"

text \<open>\<open>a || b || 'Invalid value'\<close> on messages: an absent or empty message is skipped.\<close>

definition pick_message :: "string option \<Rightarrow> string option \<Rightarrow> string" where
  "pick_message a b =
     (case a of
        Some m \<Rightarrow> if m \<noteq> [] then m else (case b of Some n \<Rightarrow> if n \<noteq> [] then n else ''Invalid value''
                                                       | None \<Rightarrow> ''Invalid value'')
      | None \<Rightarrow> (case b of Some n \<Rightarrow> if n \<noteq> [] then n else ''Invalid value''
                           | None \<Rightarrow> ''Invalid value''))"

text \<open>
  An error names the location and the path of the instance it is about. A standard
  validator is applied to the string of the value, or of each element when the value is an
  array, and records the chain's message when the (possibly negated) result is false. A custom validator is called with the value itself: a falsy (negated: truthy)
  result records the chain's message; an exception it throws is caught and, unless the
  validator is negated, recorded with the exception's message.
\<close>

fun run_item :: "validation_chain \<Rightarrow> context_item \<Rightarrow> location \<times> jsvalue \<Rightarrow> validation_error list" where
  "run_item c (StandardValidation v negated) (loc, val) =
     concat (map (\<lambda>x.
        let result = validate v (toString x) in
          if (if negated then result else \<not> result)
          then [\<lparr>err_location = loc, err_param = instance_path loc (field c),
                 err_msg = Text (pick_message None (message c)), err_value = x\<rparr>]
          else [])
       (case val of JArr xs \<Rightarrow> xs | _ \<Rightarrow> [val]))"
| "run_item c (CustomValidation validator negated) (loc, val) =
     (case validator val of
        Inr result \<Rightarrow>
          if (if negated then result else \<not> result)
          then [\<lparr>err_location = loc, err_param = instance_path loc (field c),
                 err_msg = Text (pick_message None (message c)), err_value = val\<rparr>]
          else []
      | Inl err \<Rightarrow>
          if negated then []
          else [\<lparr>err_location = loc, err_param = instance_path loc (field c),
                 err_msg = (case err of
                              TypeError \<Rightarrow> TypeErrorText
                            | Error m \<Rightarrow> Text (pick_message (Some m) (message c))),
                 err_value = val\<rparr>])"

text \<open>Each validator of the chain, in order, on each instance.\<close>

definition run_on :: "validation_chain \<Rightarrow> (location \<times> jsvalue) list \<Rightarrow> validation_error list" where
  "run_on c instances = concat (map (\<lambda>item. concat (map (run_item c item) instances)) (stack c))"

definition run_chain :: "validation_chain \<Rightarrow> request \<Rightarrow> validation_error list" where
  "run_chain c req = run_on c (getData (selectFields req c))"

section \<open>The route table\<close>

text \<open>
  The controller functions imported from \<open>ProductController.js\<close>; only their names are
  known here.
\<close>

datatype handler =
    AddProduct
  | LikeProduct
  | AddProductToCart
  | GetProductById
  | GetSellingProducts
  | GetExchangeProducts
  | EditProduct
  | DeleteProduct

datatype middleware = UserAuth | Validator validation_chain | Controller handler

text \<open>
  The arguments of a registration as they are written, with arrays inside arrays; the
  router flattens them into the route's layers.
\<close>

datatype 'a nested = Item 'a | Array "'a nested list"

fun flatten :: "'a nested \<Rightarrow> 'a list" where
  "flatten (Item x) = [x]"
| "flatten (Array xs) = concat (map flatten xs)"

datatype http_method = GET | POST | PUT | PATCH | DELETE

record route =
  route_method :: http_method
  path :: string
  layers :: "middleware list"

definition register :: "http_method \<Rightarrow> string \<Rightarrow> middleware nested list \<Rightarrow> route list \<Rightarrow> route list" where
  "register m p args router = router @ [\<lparr>route_method = m, path = p, layers = flatten (Array args)\<rparr>]"

text \<open>The custom validator of \<open>images\<close> in the \<open>/AddProduct\<close> registration.\<close>

definition AddProduct_images :: "jsvalue \<Rightarrow> thrown + bool" where
  "AddProduct_images val =
     (case js_length val of
        Inl err \<Rightarrow> Inl err
      | Inr len \<Rightarrow>
          if js_less len 3 then Inl (Error ''Each product should have at least 3 images'')
          else Inr True)"

text \<open>The custom validator of \<open>images\<close> in the \<open>/EditProduct\<close> registration.\<close>

definition EditProduct_images :: "jsvalue \<Rightarrow> thrown + bool" where
  "EditProduct_images val =
     (case js_length val of
        Inl err \<Rightarrow> Inl err
      | Inr len \<Rightarrow>
          if js_less len 3 then Inl (Error ''Each product should have at least 3 images'')
          else Inr True)"

definition route_AddProduct :: "route list \<Rightarrow> route list" where
  "route_AddProduct =
     register POST ''/AddProduct''
       [Array
         [Item UserAuth,
          Array
           [Item (Validator (isEmpty (not_v (check ''productName'' ''Product name is required'')))),
            Item (Validator (isNumeric (check ''price'' ''Price should be a number''))),
            Item (Validator (isBoolean (check ''forExchange'' ''ForExchange should be boolean''))),
            Item (Validator (isEmpty (not_v (check ''description'' ''Description is required'')))),
            Item (Validator (isEmpty (not_v (check ''categoryId'' ''Category should be a number'')))),
            Item (Validator (isEmpty (not_v (check ''cityId'' ''City should be a number'')))),
            Item (Validator (isEmpty (not_v (check ''conditionId'' ''Condition should be a number'')))),
            Item (Validator (custom AddProduct_images (body ''images'')))]],
        Item (Controller AddProduct)]"

definition route_LikeProduct :: "route list \<Rightarrow> route list" where
  "route_LikeProduct =
     register PATCH ''/LikeProduct''
       [Array
         [Item UserAuth,
          Array
           [Item (Validator (isEmpty (not_v (check ''productId'' ''Product id is required''))))]],
        Item (Controller LikeProduct)]"

definition route_AddProductToCart :: "route list \<Rightarrow> route list" where
  "route_AddProductToCart =
     register PATCH ''/AddProductToCart''
       [Array
         [Item UserAuth,
          Array
           [Item (Validator (isEmpty (not_v (check ''productId'' ''Product id is required''))))]],
        Item (Controller AddProductToCart)]"

definition route_GetProductById :: "route list \<Rightarrow> route list" where
  "route_GetProductById =
     register GET ''/GetProductById'' [Item UserAuth, Item (Controller GetProductById)]"

definition route_GetSellingProducts :: "route list \<Rightarrow> route list" where
  "route_GetSellingProducts =
     register GET ''/GetSellingProducts'' [Item UserAuth, Item (Controller GetSellingProducts)]"

definition route_GetExchangeProducts :: "route list \<Rightarrow> route list" where
  "route_GetExchangeProducts =
     register GET ''/GetExchangeProducts'' [Item UserAuth, Item (Controller GetExchangeProducts)]"

definition route_EditProduct :: "route list \<Rightarrow> route list" where
  "route_EditProduct =
     register PUT ''/EditProduct''
       [Array
         [Item UserAuth,
          Array
           [Item (Validator (isEmpty (not_v (check ''productId'' ''Product id is required'')))),
            Item (Validator (isEmpty (not_v (check ''productName'' ''Product name is required'')))),
            Item (Validator (isNumeric (check ''price'' ''Price should be a number''))),
            Item (Validator (isBoolean (check ''forExchange'' ''ForExchange should be boolean''))),
            Item (Validator (isEmpty (not_v (check ''description'' ''Description is required'')))),
            Item (Validator (isEmpty (not_v (check ''categoryId'' ''Category should be a number'')))),
            Item (Validator (isEmpty (not_v (check ''cityId'' ''City should be a number'')))),
            Item (Validator (isEmpty (not_v (check ''conditionId'' ''Condition should be a number'')))),
            Item (Validator (custom EditProduct_images (body ''images'')))]],
        Item (Controller EditProduct)]"

definition route_DeleteProduct :: "route list \<Rightarrow> route list" where
  "route_DeleteProduct =
     register DELETE ''/DeleteProduct''
       [Array
         [Item UserAuth,
          Array
           [Item (Validator (isEmpty (not_v (check ''productId'' ''Product id is required''))))]],
        Item (Controller DeleteProduct)]"

text \<open>The router after the eight registrations, in the order of the file.\<close>

definition ProductRouter :: "route list" where
  "ProductRouter =
     fold (\<lambda>registration router. registration router)
       [route_AddProduct, route_LikeProduct, route_AddProductToCart, route_GetProductById,
        route_GetSellingProducts, route_GetExchangeProducts, route_EditProduct,
        route_DeleteProduct]
       []"

section \<open>Dispatching a request\<close>

text \<open>
  What a request ends in: no route of the router matches; \<open>UserAuth\<close> answers and does not
  call the next layer; or a controller is called, with the request and the validation errors
  the chains have recorded on it.
\<close>

datatype outcome =
    NotFound
  | Unauthorized
  | Handled handler request "validation_error list"

datatype event = RanUserAuth | RanValidator string | RanController handler

text \<open>
  The layers run in order. \<open>UserAuth.js\<close> is not part of these sources: \<open>auth\<close> is its
  decision on a request (true: it calls the next layer; false: it answers itself). A chain
  records its errors and always calls the next layer. A controller ends the run. The events
  list the layers that ran.
\<close>

fun run_layers :: "(request \<Rightarrow> bool) \<Rightarrow> middleware list \<Rightarrow> request \<Rightarrow> validation_error list
    \<Rightarrow> event list \<times> outcome" where
  "run_layers auth [] req errs = ([], NotFound)"
| "run_layers auth (UserAuth # ls) req errs =
     (if auth req
      then (let (evs, out) = run_layers auth ls req errs in (RanUserAuth # evs, out))
      else ([RanUserAuth], Unauthorized))"
| "run_layers auth (Validator c # ls) req errs =
     (let (evs, out) = run_layers auth ls req (errs @ run_chain c req)
      in (RanValidator (field c) # evs, out))"
| "run_layers auth (Controller h # ls) req errs = ([RanController h], Handled h req errs)"

text \<open>
  A router made by \<open>express.Router()\<close> with no options compares paths without regard to
  case and accepts one trailing slash.
\<close>

definition path_matches :: "string \<Rightarrow> string \<Rightarrow> bool" where
  "path_matches registered p =
     (toLowerCase p = toLowerCase registered \<or> toLowerCase p = toLowerCase registered @ ''/'')"

text \<open>The first route registered for the method whose path matches.\<close>

definition lookup :: "route list \<Rightarrow> http_method \<Rightarrow> string \<Rightarrow> route option" where
  "lookup router m p = find (\<lambda>r. route_method r = m \<and> path_matches (path r) p) router"

definition handle :: "(request \<Rightarrow> bool) \<Rightarrow> route list \<Rightarrow> http_method \<Rightarrow> string \<Rightarrow> request
    \<Rightarrow> event list \<times> outcome" where
  "handle auth router m p req =
     (case lookup router m p of
        None \<Rightarrow> ([], NotFound)
      | Some r \<Rightarrow> run_layers auth (layers r) req [])"

section \<open>Observations\<close>

text \<open>The validation chains among the layers of a route, in order.\<close>

fun validators :: "middleware list \<Rightarrow> validation_chain list" where
  "validators [] = []"
| "validators (Validator c # ls) = c # validators ls"
| "validators (UserAuth # ls) = validators ls"
| "validators (Controller h # ls) = validators ls"

definition rules_for :: "http_method \<Rightarrow> string \<Rightarrow> validation_chain list" where
  "rules_for m p = (case lookup ProductRouter m p of None \<Rightarrow> [] | Some r \<Rightarrow> validators (layers r))"

text \<open>How often a controller was called in a run.\<close>

fun controller_calls :: "event list \<Rightarrow> nat" where
  "controller_calls [] = 0"
| "controller_calls (RanController h # evs) = Suc (controller_calls evs)"
| "controller_calls (RanUserAuth # evs) = controller_calls evs"
| "controller_calls (RanValidator f # evs) = controller_calls evs"

text \<open>The eight chains of \<open>/AddProduct\<close>, and the \<open>productId\<close> chain that four routes declare.\<close>

definition AddProduct_rules :: "validation_chain list" where
  "AddProduct_rules =
     [isEmpty (not_v (check ''productName'' ''Product name is required'')),
      isNumeric (check ''price'' ''Price should be a number''),
      isBoolean (check ''forExchange'' ''ForExchange should be boolean''),
      isEmpty (not_v (check ''description'' ''Description is required'')),
      isEmpty (not_v (check ''categoryId'' ''Category should be a number'')),
      isEmpty (not_v (check ''cityId'' ''City should be a number'')),
      isEmpty (not_v (check ''conditionId'' ''Condition should be a number'')),
      custom AddProduct_images (body ''images'')]"

definition productId_rule :: validation_chain where
  "productId_rule = isEmpty (not_v (check ''productId'' ''Product id is required''))"

text \<open>A field is carried by the body alone when no other location has it.\<close>

definition body_only :: "request \<Rightarrow> string \<Rightarrow> bool" where
  "body_only req f = list_all (\<lambda>loc. field_value req loc f = Undefined) [Cookies, Headers, Params, Query]"

section \<open>Sample requests\<close>

definition accept_all :: "request \<Rightarrow> bool" where
  "accept_all req = True"

definition reject_all :: "request \<Rightarrow> bool" where
  "reject_all req = False"

definition bike_body :: "(string \<times> jsvalue) list" where
  "bike_body =
     [(''productName'', JStr ''Bike''), (''price'', JStr ''100''), (''forExchange'', JStr ''false''),
      (''description'', JStr ''Used bike''), (''categoryId'', JStr ''1''), (''cityId'', JStr ''1''),
      (''conditionId'', JStr ''1''),
      (''images'', JArr [JStr ''a.jpg'', JStr ''b.jpg'', JStr ''c.jpg''])]"

definition with_body :: "(string \<times> jsvalue) list \<Rightarrow> request" where
  "with_body b =
     \<lparr>req_body = b, req_cookies = [], req_headers = [(''x-auth-token'', JStr ''token'')],
      req_params = [], req_query = []\<rparr>"

definition bike_request :: request where
  "bike_request = with_body bike_body"

definition two_images_request :: request where
  "two_images_request =
     with_body
       [(''productName'', JStr ''Bike''), (''price'', JStr ''100''), (''forExchange'', JStr ''false''),
        (''description'', JStr ''Used bike''), (''categoryId'', JStr ''1''), (''cityId'', JStr ''1''),
        (''conditionId'', JStr ''1''), (''images'', JArr [JStr ''a.jpg'', JStr ''b.jpg''])]"

definition empty_request :: request where
  "empty_request = with_body []"

section \<open>The router, unfolded\<close>

lemma instance_path_simps [simp]:
  "instance_path Body f = f" "instance_path Cookies f = f"
  "instance_path Params f = f" "instance_path Query f = f"
  by (simp_all add: instance_path_def)

lemma lower_paths:
  "toLowerCase ''/AddProduct'' = ''/addproduct''"
  "toLowerCase ''/LikeProduct'' = ''/likeproduct''"
  "toLowerCase ''/AddProductToCart'' = ''/addproducttocart''"
  "toLowerCase ''/GetProductById'' = ''/getproductbyid''"
  "toLowerCase ''/GetSellingProducts'' = ''/getsellingproducts''"
  "toLowerCase ''/GetExchangeProducts'' = ''/getexchangeproducts''"
  "toLowerCase ''/EditProduct'' = ''/editproduct''"
  "toLowerCase ''/DeleteProduct'' = ''/deleteproduct''"
  by code_simp+

lemmas lookup_simps = lookup_def path_matches_def lower_paths

lemma images_validators_equal: "EditProduct_images = AddProduct_images"
  by (rule ext) (simp add: EditProduct_images_def AddProduct_images_def)

lemma ProductRouter_routes:
  "ProductRouter =
     [\<lparr>route_method = POST, path = ''/AddProduct'',
        layers = UserAuth # map Validator AddProduct_rules @ [Controller AddProduct]\<rparr>,
      \<lparr>route_method = PATCH, path = ''/LikeProduct'',
        layers = [UserAuth, Validator productId_rule, Controller LikeProduct]\<rparr>,
      \<lparr>route_method = PATCH, path = ''/AddProductToCart'',
        layers = [UserAuth, Validator productId_rule, Controller AddProductToCart]\<rparr>,
      \<lparr>route_method = GET, path = ''/GetProductById'', layers = [UserAuth, Controller GetProductById]\<rparr>,
      \<lparr>route_method = GET, path = ''/GetSellingProducts'',
        layers = [UserAuth, Controller GetSellingProducts]\<rparr>,
      \<lparr>route_method = GET, path = ''/GetExchangeProducts'',
        layers = [UserAuth, Controller GetExchangeProducts]\<rparr>,
      \<lparr>route_method = PUT, path = ''/EditProduct'',
        layers = UserAuth # map Validator (productId_rule # AddProduct_rules) @ [Controller EditProduct]\<rparr>,
      \<lparr>route_method = DELETE, path = ''/DeleteProduct'',
        layers = [UserAuth, Validator productId_rule, Controller DeleteProduct]\<rparr>]"
  by (simp add: ProductRouter_def route_AddProduct_def route_LikeProduct_def
      route_AddProductToCart_def route_GetProductById_def route_GetSellingProducts_def
      route_GetExchangeProducts_def route_EditProduct_def route_DeleteProduct_def register_def
      AddProduct_rules_def productId_rule_def images_validators_equal)

lemma validators_wrap: "validators (map Validator cs @ [Controller h]) = cs"
  by (induction cs) simp_all

lemma rules_for_AddProduct: "rules_for POST ''/AddProduct'' = AddProduct_rules"
  by (simp add: rules_for_def lookup_simps ProductRouter_routes validators_wrap)

lemma rules_for_EditProduct: "rules_for PUT ''/EditProduct'' = productId_rule # AddProduct_rules"
  by (simp add: rules_for_def lookup_simps ProductRouter_routes validators_wrap)


section \<open>Chains and layers, step by step\<close>

lemma chain_simps:
  "field (check f m) = f" "locations (check f m) = [Body, Cookies, Headers, Params, Query]"
  "message (check f m) = Some m" "stack (check f m) = []" "negateNext (check f m) = False"
  "field (body f) = f" "locations (body f) = [Body]"
  "message (body f) = None" "stack (body f) = []" "negateNext (body f) = False"
  "field (not_v c) = field c" "locations (not_v c) = locations c"
  "message (not_v c) = message c" "stack (not_v c) = stack c" "negateNext (not_v c) = True"
  "field (addItem item c) = field c" "locations (addItem item c) = locations c"
  "message (addItem item c) = message c" "stack (addItem item c) = stack c @ [item (negateNext c)]"
  "negateNext (addItem item c) = False"
  by (simp_all add: check_def body_def not_v_def addItem_def)

lemmas builder_defs = isEmpty_def isNumeric_def isBoolean_def custom_def



lemma getData_single: "getData [i] = [i]"
  by (simp add: getData_def)

lemma run_chain_body:
  assumes "locations c = [Body]"
  shows "run_chain c req = run_on c [(Body, field_value req Body (field c))]"
  using assms by (simp add: run_chain_def selectFields_def getData_single)

lemma run_chain_check:
  assumes "locations c = [Body, Cookies, Headers, Params, Query]" and "body_only req (field c)"
  shows "run_chain c req = run_on c [(Body, field_value req Body (field c))]"
  using assms by (simp add: run_chain_def selectFields_def getData_def body_only_def)

lemma body_instance_kept:
  assumes "locations c = [Body, Cookies, Headers, Params, Query]"
    and "field_value req Body (field c) \<noteq> Undefined"
  shows "(Body, field_value req Body (field c)) \<in> set (getData (selectFields req c))"
  using assms by (simp add: selectFields_def getData_def)

lemma run_on_subset:
  assumes "item \<in> set (stack c)" and "i \<in> set instances"
  shows "set (run_item c item i) \<subseteq> set (run_on c instances)"
  using assms by (auto simp: run_on_def)

lemma run_on_not_isEmpty:
  "run_on (isEmpty (not_v (check f m))) [(loc, JStr s)] =
     (if s = []
      then [\<lparr>err_location = loc, err_param = instance_path loc f,
             err_msg = Text (pick_message None (Some m)), err_value = JStr s\<rparr>]
      else [])"
  by (simp add: run_on_def builder_defs chain_simps)

lemma run_on_not_isEmpty_Undefined:
  "run_on (isEmpty (not_v (check f m))) [(loc, Undefined)] =
     [\<lparr>err_location = loc, err_param = instance_path loc f,
       err_msg = Text (pick_message None (Some m)), err_value = Undefined\<rparr>]"
  by (simp add: run_on_def builder_defs chain_simps)

lemma run_on_images:
  "run_on (custom AddProduct_images (body ''images'')) [(loc, v)] =
     (case js_length v of
        Inl e \<Rightarrow> [\<lparr>err_location = loc, err_param = instance_path loc ''images'', err_msg = TypeErrorText, err_value = v\<rparr>]
      | Inr len \<Rightarrow>
          if js_less len 3
          then [\<lparr>err_location = loc, err_param = instance_path loc ''images'',
                 err_msg = Text ''Each product should have at least 3 images'', err_value = v\<rparr>]
          else [])"
  by (cases v) (simp_all add: run_on_def builder_defs chain_simps AddProduct_images_def pick_message_def)


lemma run_layers_validators:
  "run_layers auth (map Validator cs @ [Controller h]) req errs =
     (map (\<lambda>c. RanValidator (field c)) cs @ [RanController h],
      Handled h req (errs @ concat (map (\<lambda>c. run_chain c req) cs)))"
  by (induction cs arbitrary: errs) simp_all

lemma controller_calls_validators:
  "controller_calls (map (\<lambda>c. RanValidator (field c)) cs @ evs) = controller_calls evs"
  by (induction cs) simp_all

lemma handle_AddProduct:
  "handle auth ProductRouter POST ''/AddProduct'' req =
     (if auth req
      then (RanUserAuth # map (\<lambda>c. RanValidator (field c)) AddProduct_rules @ [RanController AddProduct],
            Handled AddProduct req (concat (map (\<lambda>c. run_chain c req) AddProduct_rules)))
      else ([RanUserAuth], Unauthorized))"
  by (simp add: handle_def lookup_simps ProductRouter_routes run_layers_validators)

lemma handle_EditProduct:
  "handle auth ProductRouter PUT ''/EditProduct'' req =
     (if auth req
      then (RanUserAuth # map (\<lambda>c. RanValidator (field c)) (productId_rule # AddProduct_rules)
              @ [RanController EditProduct],
            Handled EditProduct req
              (concat (map (\<lambda>c. run_chain c req) (productId_rule # AddProduct_rules))))
      else ([RanUserAuth], Unauthorized))"
  by (simp add: handle_def lookup_simps ProductRouter_routes run_layers_validators del: list.map)

lemma standard_error_recorded:
  assumes "locations c = [Body, Cookies, Headers, Params, Query]"
    and "StandardValidation k n \<in> set (stack c)"
    and "field_value req Body (field c) = JStr s"
    and "if n then validate k s else \<not> validate k s"
  shows "\<lparr>err_location = Body, err_param = field c,
          err_msg = Text (pick_message None (message c)), err_value = JStr s\<rparr>
         \<in> set (run_chain c req)"
proof -
  have "(Body, JStr s) \<in> set (getData (selectFields req c))"
    using body_instance_kept [OF assms(1), of req] assms(3) by simp
  then have "set (run_item c (StandardValidation k n) (Body, JStr s)) \<subseteq> set (run_chain c req)"
    unfolding run_chain_def using assms(2) by (rule run_on_subset [rotated])
  moreover have "run_item c (StandardValidation k n) (Body, JStr s) =
      [\<lparr>err_location = Body, err_param = field c,
        err_msg = Text (pick_message None (message c)), err_value = JStr s\<rparr>]"
    using assms(4) by (cases n) simp_all
  ultimately show ?thesis by simp
qed

lemma is_digit_numeric_char: "is_digit c \<Longrightarrow> numeric_char c"
  by (auto simp: is_digit_def numeric_char_def)

lemma strip_sign_numeric_chars:
  assumes "list_all numeric_char (strip_sign s)"
  shows "list_all numeric_char s"
proof (cases s)
  case Nil
  then show ?thesis by simp
next
  case (Cons c t)
  show ?thesis
  proof (cases "c = CHR ''+'' \<or> c = CHR ''-''")
    case True
    then have "numeric_char c" by (auto simp: numeric_char_def)
    with assms Cons True show ?thesis by (simp add: strip_sign_def)
  next
    case False
    with assms Cons show ?thesis by (simp add: strip_sign_def)
  qed
qed

lemma numeric_pattern_chars:
  assumes "numeric_pattern s"
  shows "list_all numeric_char s"
proof -
  define t where "t = strip_sign s"
  have front: "list_all numeric_char (takeWhile is_digit t)"
    unfolding list_all_iff using is_digit_numeric_char set_takeWhileD by fast
  have behind: "list_all numeric_char (dropWhile is_digit t)"
  proof (cases "dropWhile is_digit t")
    case Nil
    show ?thesis unfolding Nil by simp
  next
    case (Cons c b)
    with assms have "c = CHR ''.''" and "list_all is_digit b"
      unfolding numeric_pattern_def t_def [symmetric] by (simp_all add: Let_def)
    moreover have "numeric_char CHR ''.''" by (simp add: numeric_char_def)
    ultimately show ?thesis
      using Cons is_digit_numeric_char by (auto simp: list_all_iff)
  qed
  have "list_all numeric_char t"
    using front behind by (metis list_all_append takeWhile_dropWhile_id)
  then show ?thesis
    unfolding t_def by (rule strip_sign_numeric_chars)
qed

section \<open>Authentication comes first\<close>

text \<open>
  C1. Each of the eight routes of the router has \<open>UserAuth\<close> as its first layer, ahead of
  every validation chain and of the controller. When \<open>UserAuth\<close> does not let a request
  through, the run consists of \<open>UserAuth\<close> alone: no chain runs and no controller is called.
\<close>

theorem UserAuth_first_on_every_route:
  "length ProductRouter = 8 \<and>
   (\<forall>r \<in> set ProductRouter.
      (\<exists>rest. layers r = UserAuth # rest) \<and>
      (\<forall>auth req. \<not> auth req \<longrightarrow>
         handle auth ProductRouter (route_method r) (path r) req = ([RanUserAuth], Unauthorized)))"
  by (simp add: ProductRouter_routes handle_def lookup_simps)

text \<open>The same at \<open>POST /AddProduct\<close>, for a complete body that \<open>UserAuth\<close> turns away.\<close>

theorem UserAuth_first_witness:
  "handle reject_all ProductRouter POST ''/AddProduct'' bike_request = ([RanUserAuth], Unauthorized)"
proof -
  have "hd ProductRouter \<in> set ProductRouter"
    by (simp add: ProductRouter_routes)
  moreover have "route_method (hd ProductRouter) = POST" and "path (hd ProductRouter) = ''/AddProduct''"
    by (simp_all add: ProductRouter_routes)
  moreover have "\<not> reject_all bike_request"
    by (simp add: reject_all_def)
  ultimately show ?thesis
    using UserAuth_first_on_every_route by metis
qed

section \<open>Fewer than three images\<close>

text \<open>
  C2, as stated, fails: a request to \<open>POST /AddProduct\<close> that passes \<open>UserAuth\<close> and carries
  two images has the error recorded, and the controller is called all the same, since a
  validation chain records its errors and hands the request on.
\<close>

theorem short_images_counterexample:
  "handle accept_all ProductRouter POST ''/AddProduct'' two_images_request =
     ([RanUserAuth, RanValidator ''productName'', RanValidator ''price'',
       RanValidator ''forExchange'', RanValidator ''description'', RanValidator ''categoryId'',
       RanValidator ''cityId'', RanValidator ''conditionId'', RanValidator ''images'',
       RanController AddProduct],
      Handled AddProduct two_images_request
        [\<lparr>err_location = Body, err_param = ''images'',
          err_msg = Text ''Each product should have at least 3 images'',
          err_value = JArr [JStr ''a.jpg'', JStr ''b.jpg'']\<rparr>])"
  by code_simp

text \<open>
  C2, amended. For \<open>/AddProduct\<close> and \<open>/EditProduct\<close>, every request that passes \<open>UserAuth\<close>
  and whose \<open>images\<close> field is an array of fewer than 3 entries has a validation error with
  the message "Each product should have at least 3 images" recorded on it; the controller
  is then called once, with the request and the recorded errors.
\<close>

theorem short_images_recorded_then_handled:
  assumes "auth req" and "field_value req Body ''images'' = JArr xs" and "length xs < 3"
  shows "(\<exists>evs errs.
            handle auth ProductRouter POST ''/AddProduct'' req = (evs, Handled AddProduct req errs) \<and>
            controller_calls evs = 1 \<and>
            \<lparr>err_location = Body, err_param = ''images'',
             err_msg = Text ''Each product should have at least 3 images'',
             err_value = JArr xs\<rparr> \<in> set errs) \<and>
         (\<exists>evs errs.
            handle auth ProductRouter PUT ''/EditProduct'' req = (evs, Handled EditProduct req errs) \<and>
            controller_calls evs = 1 \<and>
            \<lparr>err_location = Body, err_param = ''images'',
             err_msg = Text ''Each product should have at least 3 images'',
             err_value = JArr xs\<rparr> \<in> set errs)"
proof -
  have img: "run_chain (custom AddProduct_images (body ''images'')) req =
      [\<lparr>err_location = Body, err_param = ''images'',
        err_msg = Text ''Each product should have at least 3 images'', err_value = JArr xs\<rparr>]"
    using assms(2,3)
    by (simp add: run_chain_body builder_defs chain_simps run_on_images [unfolded builder_defs])
  have "\<exists>evs errs.
           handle auth ProductRouter POST ''/AddProduct'' req = (evs, Handled AddProduct req errs) \<and>
           controller_calls evs = 1 \<and>
           \<lparr>err_location = Body, err_param = ''images'',
            err_msg = Text ''Each product should have at least 3 images'',
            err_value = JArr xs\<rparr> \<in> set errs"
    using assms(1) img
    by (simp add: handle_AddProduct controller_calls_validators AddProduct_rules_def)
  moreover have "\<exists>evs errs.
           handle auth ProductRouter PUT ''/EditProduct'' req = (evs, Handled EditProduct req errs) \<and>
           controller_calls evs = 1 \<and>
           \<lparr>err_location = Body, err_param = ''images'',
            err_msg = Text ''Each product should have at least 3 images'',
            err_value = JArr xs\<rparr> \<in> set errs"
    using assms(1) img
    by (simp add: handle_EditProduct controller_calls_validators AddProduct_rules_def)
  ultimately show ?thesis by blast
qed

text \<open>The amended statement at \<open>PUT /EditProduct\<close>, for a body with an empty \<open>images\<close> array.\<close>

theorem short_images_witness:
  "\<exists>evs errs.
     handle accept_all ProductRouter PUT ''/EditProduct'' (with_body [(''images'', JArr [])]) =
       (evs, Handled EditProduct (with_body [(''images'', JArr [])]) errs) \<and>
     controller_calls evs = 1 \<and>
     \<lparr>err_location = Body, err_param = ''images'',
      err_msg = Text ''Each product should have at least 3 images'',
      err_value = JArr []\<rparr> \<in> set errs"
proof -
  have "accept_all (with_body [(''images'', JArr [])])"
    by (simp add: accept_all_def)
  moreover have "field_value (with_body [(''images'', JArr [])]) Body ''images'' = JArr []"
    by (simp add: field_value_def with_body_def)
  moreover have "length ([] :: jsvalue list) < 3"
    by simp
  ultimately show ?thesis
    using short_images_recorded_then_handled by blast
qed

section \<open>What the predicates throw\<close>




section \<open>The rules of \<open>/AddProduct\<close>\<close>

lemma is_digit_not_sign: "is_digit c \<Longrightarrow> c \<noteq> CHR ''+'' \<and> c \<noteq> CHR ''-'' \<and> c \<noteq> CHR ''.''"
  by (auto simp: is_digit_def)

lemma strip_sign_split: "\<exists>g \<in> {[], ''+'', ''-''}. s = g @ strip_sign s"
  by (cases s) (auto simp: strip_sign_def)

lemma strip_sign_signed:
  assumes "g \<in> {[], ''+'', ''-''}" and "t \<noteq> []" and "hd t \<noteq> CHR ''+''" and "hd t \<noteq> CHR ''-''"
  shows "strip_sign (g @ t) = t"
  using assms by (cases t) (auto simp: strip_sign_def)

lemma takeWhile_all: "list_all P xs \<Longrightarrow> takeWhile P xs = xs"
  by (simp add: list_all_iff)

lemma dropWhile_all: "list_all P xs \<Longrightarrow> dropWhile P xs = []"
  by (simp add: list_all_iff)

lemma numeric_pattern_shape:
  "numeric_pattern s =
     (\<exists>g d. g \<in> {[], ''+'', ''-''} \<and> d \<noteq> [] \<and> list_all is_digit d \<and>
        (s = g @ d \<or> (\<exists>a. list_all is_digit a \<and> s = g @ a @ CHR ''.'' # d)))"
  (is "?lhs = ?rhs")
proof
  assume np: ?lhs
  define t where "t = strip_sign s"
  obtain g where g: "g \<in> {[], ''+'', ''-''}" and s: "s = g @ t"
    using strip_sign_split [of s] unfolding t_def by blast
  have t: "t = takeWhile is_digit t @ dropWhile is_digit t"
    by simp
  have front: "list_all is_digit (takeWhile is_digit t)"
    unfolding list_all_iff using set_takeWhileD by fast
  show ?rhs
  proof (cases "dropWhile is_digit t")
    case Nil
    with np have "takeWhile is_digit t \<noteq> []"
      unfolding numeric_pattern_def t_def [symmetric] by (simp add: Let_def)
    moreover have "s = g @ takeWhile is_digit t"
      using s t Nil by (metis append_Nil2)
    ultimately show ?thesis
      using g front by blast
  next
    case (Cons c b)
    with np have "c = CHR ''.''" and "b \<noteq> []" and "list_all is_digit b"
      unfolding numeric_pattern_def t_def [symmetric] by (simp_all add: Let_def)
    moreover have "s = g @ takeWhile is_digit t @ c # b"
      using s t Cons by metis
    ultimately show ?thesis
      using g front by blast
  qed
next
  assume ?rhs
  then obtain g d where g: "g \<in> {[], ''+'', ''-''}" and d: "d \<noteq> []" "list_all is_digit d"
    and s: "s = g @ d \<or> (\<exists>a. list_all is_digit a \<and> s = g @ a @ CHR ''.'' # d)"
    by blast
  from s show ?lhs
  proof
    assume whole: "s = g @ d"
    have "is_digit (hd d)"
      using d by (cases d) simp_all
    then have "strip_sign s = d"
      unfolding whole using g d(1) is_digit_not_sign by (intro strip_sign_signed) auto
    then show ?lhs
      unfolding numeric_pattern_def using d by (simp add: Let_def takeWhile_all dropWhile_all)
  next
    assume "\<exists>a. list_all is_digit a \<and> s = g @ a @ CHR ''.'' # d"
    then obtain a where a: "list_all is_digit a" and frac: "s = g @ (a @ CHR ''.'' # d)"
      by auto
    have "hd (a @ CHR ''.'' # d) \<noteq> CHR ''+'' \<and> hd (a @ CHR ''.'' # d) \<noteq> CHR ''-''"
      using a is_digit_not_sign by (cases a) auto
    then have strip: "strip_sign s = a @ CHR ''.'' # d"
      unfolding frac using g by (intro strip_sign_signed) auto
    have dot: "\<not> is_digit CHR ''.''"
      using is_digit_not_sign by blast
    have "takeWhile is_digit (a @ CHR ''.'' # d) = a"
      using a dot by (simp add: takeWhile_tail list_all_iff)
    moreover have "dropWhile is_digit (a @ CHR ''.'' # d) = CHR ''.'' # d"
      using a dot by (simp add: dropWhile_append3 list_all_iff)
    ultimately show ?lhs
      unfolding numeric_pattern_def strip using d by (simp add: Let_def)
  qed
qed

lemma standard_chain_on_body:
  assumes "locations c = [Body, Cookies, Headers, Params, Query]"
    and "stack c = [StandardValidation k n]"
    and "body_only req (field c)"
    and "field_value req Body (field c) = v"
    and "v = Undefined \<or> (\<exists>s. v = JStr s)"
  shows "run_chain c req =
     (if (if n then validate k (toString v) else \<not> validate k (toString v))
      then [\<lparr>err_location = Body, err_param = field c,
             err_msg = Text (pick_message None (message c)), err_value = v\<rparr>]
      else [])"
  using assms(2,4,5) run_chain_check [OF assms(1,3)]
  by (auto simp: run_on_def)

lemma not_isEmpty_on_body:
  assumes "body_only req f" and "m \<noteq> []"
  shows "field_value req Body f = Undefined \<longrightarrow>
           run_chain (isEmpty (not_v (check f m))) req =
             [\<lparr>err_location = Body, err_param = f, err_msg = Text m, err_value = Undefined\<rparr>]"
    and "\<forall>s. field_value req Body f = JStr s \<longrightarrow>
           run_chain (isEmpty (not_v (check f m))) req =
             (if s = []
              then [\<lparr>err_location = Body, err_param = f, err_msg = Text m, err_value = JStr s\<rparr>]
              else [])"
  using assms
    standard_chain_on_body [of "isEmpty (not_v (check f m))" IsEmpty True req]
  by (simp_all add: builder_defs chain_simps pick_message_def)

lemma isNumeric_on_body:
  assumes "body_only req f" and "field_value req Body f = JStr s" and "m \<noteq> []"
  shows "run_chain (isNumeric (check f m)) req =
     (if validate IsNumeric s then []
      else [\<lparr>err_location = Body, err_param = f, err_msg = Text m, err_value = JStr s\<rparr>])"
  using assms standard_chain_on_body [of "isNumeric (check f m)" IsNumeric False req "JStr s"]
  by (simp add: builder_defs chain_simps pick_message_def)

lemma isBoolean_on_body:
  assumes "body_only req f" and "field_value req Body f = JStr s" and "m \<noteq> []"
  shows "run_chain (isBoolean (check f m)) req =
     (if s \<in> {''true'', ''false'', ''1'', ''0''} then []
      else [\<lparr>err_location = Body, err_param = f, err_msg = Text m, err_value = JStr s\<rparr>])"
  using assms standard_chain_on_body [of "isBoolean (check f m)" IsBoolean False req "JStr s"]
  by (simp add: builder_defs chain_simps pick_message_def)

lemma AddProduct_rules_nth:
  "AddProduct_rules ! 0 = isEmpty (not_v (check ''productName'' ''Product name is required''))"
  "AddProduct_rules ! 1 = isNumeric (check ''price'' ''Price should be a number'')"
  "AddProduct_rules ! 2 = isBoolean (check ''forExchange'' ''ForExchange should be boolean'')"
  "AddProduct_rules ! 3 = isEmpty (not_v (check ''description'' ''Description is required''))"
  "AddProduct_rules ! 4 = isEmpty (not_v (check ''categoryId'' ''Category should be a number''))"
  "AddProduct_rules ! 5 = isEmpty (not_v (check ''cityId'' ''City should be a number''))"
  "AddProduct_rules ! 6 = isEmpty (not_v (check ''conditionId'' ''Condition should be a number''))"
  "AddProduct_rules ! 7 = custom AddProduct_images (body ''images'')"
  by (simp_all add: AddProduct_rules_def)

lemma AddProduct_rules_shape:
  "map (\<lambda>c. (field c, locations c, message c, stack c)) AddProduct_rules =
     [(''productName'', [Body, Cookies, Headers, Params, Query], Some ''Product name is required'',
       [StandardValidation IsEmpty True]),
      (''price'', [Body, Cookies, Headers, Params, Query], Some ''Price should be a number'',
       [StandardValidation IsNumeric False]),
      (''forExchange'', [Body, Cookies, Headers, Params, Query],
       Some ''ForExchange should be boolean'', [StandardValidation IsBoolean False]),
      (''description'', [Body, Cookies, Headers, Params, Query], Some ''Description is required'',
       [StandardValidation IsEmpty True]),
      (''categoryId'', [Body, Cookies, Headers, Params, Query], Some ''Category should be a number'',
       [StandardValidation IsEmpty True]),
      (''cityId'', [Body, Cookies, Headers, Params, Query], Some ''City should be a number'',
       [StandardValidation IsEmpty True]),
      (''conditionId'', [Body, Cookies, Headers, Params, Query],
       Some ''Condition should be a number'', [StandardValidation IsEmpty True]),
      (''images'', [Body], None, [CustomValidation AddProduct_images False])]"
  by (simp add: AddProduct_rules_def builder_defs chain_simps)

lemma AddProduct_required_rules:
  assumes "(i, f, m) \<in> set [(0, ''productName'', ''Product name is required''),
                             (3, ''description'', ''Description is required''),
                             (4, ''categoryId'', ''Category should be a number''),
                             (5, ''cityId'', ''City should be a number''),
                             (6, ''conditionId'', ''Condition should be a number'')]"
  shows "AddProduct_rules ! i = isEmpty (not_v (check f m)) \<and> m \<noteq> []"
  using assms by (auto simp: AddProduct_rules_nth)

text \<open>
  C4. The route registered for \<open>POST /AddProduct\<close> declares eight rules, in this order:
  \<open>productName\<close> not empty, \<open>price\<close> numeric, \<open>forExchange\<close> boolean, \<open>description\<close>,
  \<open>categoryId\<close>, \<open>cityId\<close> and \<open>conditionId\<close> not empty, and the \<open>images\<close> predicate. Each of
  the first seven reads its field from the five locations, carries its message and consists
  of one standard validator; the \<open>images\<close> rule reads the body and consists of the custom
  predicate. When the body alone carries the field, a not-empty rule records its error on
  an absent field and on the empty string and nothing on any other string; the \<open>price\<close> rule
  records nothing on a string that is an optional sign, digits, and possibly a dot among
  them that digits follow, and its error on every other string (so on any string with a
  character other than a digit, a sign or a dot); the \<open>forExchange\<close> rule records nothing on
  \<open>true\<close>, \<open>false\<close>, \<open>1\<close> and \<open>0\<close> and its error on every other string. The \<open>images\<close> rule
  accepts an array exactly when it has 3 entries or more. A \<open>price\<close> or \<open>forExchange\<close> string
  of the body that its rule rejects has the error recorded whatever the other locations
  hold.
\<close>

theorem AddProduct_rules_in_order:
  "rules_for POST ''/AddProduct'' =
     [isEmpty (not_v (check ''productName'' ''Product name is required'')),
      isNumeric (check ''price'' ''Price should be a number''),
      isBoolean (check ''forExchange'' ''ForExchange should be boolean''),
      isEmpty (not_v (check ''description'' ''Description is required'')),
      isEmpty (not_v (check ''categoryId'' ''Category should be a number'')),
      isEmpty (not_v (check ''cityId'' ''City should be a number'')),
      isEmpty (not_v (check ''conditionId'' ''Condition should be a number'')),
      custom AddProduct_images (body ''images'')] \<and>
   (\<forall>req s. field_value req Body ''price'' = JStr s \<longrightarrow> \<not> validate IsNumeric s \<longrightarrow>
      \<lparr>err_location = Body, err_param = ''price'', err_msg = Text ''Price should be a number'',
       err_value = JStr s\<rparr> \<in> set (run_chain (rules_for POST ''/AddProduct'' ! 1) req)) \<and>
   (\<forall>s. \<not> list_all numeric_char s \<longrightarrow> \<not> validate IsNumeric s) \<and>
   (\<forall>req s. field_value req Body ''forExchange'' = JStr s \<longrightarrow>
      s \<notin> {''true'', ''false'', ''1'', ''0''} \<longrightarrow>
      \<lparr>err_location = Body, err_param = ''forExchange'',
       err_msg = Text ''ForExchange should be boolean'', err_value = JStr s\<rparr>
      \<in> set (run_chain (rules_for POST ''/AddProduct'' ! 2) req)) \<and>
   (\<forall>req xs. field_value req Body ''images'' = JArr xs \<longrightarrow>
      (run_chain (rules_for POST ''/AddProduct'' ! 7) req = []) = (3 \<le> length xs)) \<and>
   map (\<lambda>c. (field c, locations c, message c, stack c)) (rules_for POST ''/AddProduct'') =
     [(''productName'', [Body, Cookies, Headers, Params, Query], Some ''Product name is required'',
       [StandardValidation IsEmpty True]),
      (''price'', [Body, Cookies, Headers, Params, Query], Some ''Price should be a number'',
       [StandardValidation IsNumeric False]),
      (''forExchange'', [Body, Cookies, Headers, Params, Query],
       Some ''ForExchange should be boolean'', [StandardValidation IsBoolean False]),
      (''description'', [Body, Cookies, Headers, Params, Query], Some ''Description is required'',
       [StandardValidation IsEmpty True]),
      (''categoryId'', [Body, Cookies, Headers, Params, Query], Some ''Category should be a number'',
       [StandardValidation IsEmpty True]),
      (''cityId'', [Body, Cookies, Headers, Params, Query], Some ''City should be a number'',
       [StandardValidation IsEmpty True]),
      (''conditionId'', [Body, Cookies, Headers, Params, Query],
       Some ''Condition should be a number'', [StandardValidation IsEmpty True]),
      (''images'', [Body], None, [CustomValidation AddProduct_images False])] \<and>
   (\<forall>(i, f, m) \<in> set [(0, ''productName'', ''Product name is required''),
                        (3, ''description'', ''Description is required''),
                        (4, ''categoryId'', ''Category should be a number''),
                        (5, ''cityId'', ''City should be a number''),
                        (6, ''conditionId'', ''Condition should be a number'')].
      \<forall>req. body_only req f \<longrightarrow>
        (field_value req Body f = Undefined \<longrightarrow>
           run_chain (rules_for POST ''/AddProduct'' ! i) req =
             [\<lparr>err_location = Body, err_param = f, err_msg = Text m, err_value = Undefined\<rparr>]) \<and>
        (\<forall>s. field_value req Body f = JStr s \<longrightarrow>
           run_chain (rules_for POST ''/AddProduct'' ! i) req =
             (if s = []
              then [\<lparr>err_location = Body, err_param = f, err_msg = Text m, err_value = JStr s\<rparr>]
              else []))) \<and>
   (\<forall>req s. body_only req ''price'' \<longrightarrow> field_value req Body ''price'' = JStr s \<longrightarrow>
      run_chain (rules_for POST ''/AddProduct'' ! 1) req =
        (if validate IsNumeric s then []
         else [\<lparr>err_location = Body, err_param = ''price'',
                err_msg = Text ''Price should be a number'', err_value = JStr s\<rparr>])) \<and>
   (\<forall>s. validate IsNumeric s =
      (\<exists>g d. g \<in> {[], ''+'', ''-''} \<and> d \<noteq> [] \<and> list_all (\<lambda>c. c \<in> set ''0123456789'') d \<and>
         (s = g @ d \<or> (\<exists>a. list_all (\<lambda>c. c \<in> set ''0123456789'') a \<and> s = g @ a @ CHR ''.'' # d)))) \<and>
   (\<forall>req s. body_only req ''forExchange'' \<longrightarrow> field_value req Body ''forExchange'' = JStr s \<longrightarrow>
      run_chain (rules_for POST ''/AddProduct'' ! 2) req =
        (if s \<in> {''true'', ''false'', ''1'', ''0''} then []
         else [\<lparr>err_location = Body, err_param = ''forExchange'',
                err_msg = Text ''ForExchange should be boolean'', err_value = JStr s\<rparr>]))"
proof -
  have price: "\<lparr>err_location = Body, err_param = ''price'',
        err_msg = Text ''Price should be a number'', err_value = JStr s\<rparr>
      \<in> set (run_chain (AddProduct_rules ! 1) req)"
    if "field_value req Body ''price'' = JStr s" and "\<not> validate IsNumeric s" for req s
    unfolding AddProduct_rules_nth
    using standard_error_recorded
      [of "isNumeric (check ''price'' ''Price should be a number'')" IsNumeric False req s] that
    by (simp add: builder_defs chain_simps pick_message_def)
  have forExchange: "\<lparr>err_location = Body, err_param = ''forExchange'',
        err_msg = Text ''ForExchange should be boolean'', err_value = JStr s\<rparr>
      \<in> set (run_chain (AddProduct_rules ! 2) req)"
    if "field_value req Body ''forExchange'' = JStr s" and "s \<notin> {''true'', ''false'', ''1'', ''0''}"
    for req s
    unfolding AddProduct_rules_nth
    using standard_error_recorded
      [of "isBoolean (check ''forExchange'' ''ForExchange should be boolean'')" IsBoolean False req s]
      that
    by (simp add: builder_defs chain_simps pick_message_def)
  have chars: "\<not> validate IsNumeric s" if "\<not> list_all numeric_char s" for s
    using numeric_pattern_chars [of s] that by auto
  have images: "(run_chain (AddProduct_rules ! 7) req = []) = (3 \<le> length xs)"
    if "field_value req Body ''images'' = JArr xs" for req xs
    unfolding AddProduct_rules_nth
    using that
    by (auto simp: run_chain_body builder_defs chain_simps run_on_images [unfolded builder_defs])
  have list: "AddProduct_rules =
     [isEmpty (not_v (check ''productName'' ''Product name is required'')),
      isNumeric (check ''price'' ''Price should be a number''),
      isBoolean (check ''forExchange'' ''ForExchange should be boolean''),
      isEmpty (not_v (check ''description'' ''Description is required'')),
      isEmpty (not_v (check ''categoryId'' ''Category should be a number'')),
      isEmpty (not_v (check ''cityId'' ''City should be a number'')),
      isEmpty (not_v (check ''conditionId'' ''Condition should be a number'')),
      custom AddProduct_images (body ''images'')]"
    by (fact AddProduct_rules_def)
  have required: "\<forall>(i, f, m) \<in> set [(0, ''productName'', ''Product name is required''),
                        (3, ''description'', ''Description is required''),
                        (4, ''categoryId'', ''Category should be a number''),
                        (5, ''cityId'', ''City should be a number''),
                        (6, ''conditionId'', ''Condition should be a number'')].
      \<forall>req. body_only req f \<longrightarrow>
        (field_value req Body f = Undefined \<longrightarrow>
           run_chain (AddProduct_rules ! i) req =
             [\<lparr>err_location = Body, err_param = f, err_msg = Text m, err_value = Undefined\<rparr>]) \<and>
        (\<forall>s. field_value req Body f = JStr s \<longrightarrow>
           run_chain (AddProduct_rules ! i) req =
             (if s = []
              then [\<lparr>err_location = Body, err_param = f, err_msg = Text m, err_value = JStr s\<rparr>]
              else []))"
  proof (intro ballI)
    fix x :: "nat \<times> string \<times> string"
    assume x: "x \<in> set [(0, ''productName'', ''Product name is required''),
                        (3, ''description'', ''Description is required''),
                        (4, ''categoryId'', ''Category should be a number''),
                        (5, ''cityId'', ''City should be a number''),
                        (6, ''conditionId'', ''Condition should be a number'')]"
    obtain i f m where ifm: "x = (i, f, m)"
      by (cases x)
    from AddProduct_required_rules [OF x [unfolded ifm]]
    have rule: "AddProduct_rules ! i = isEmpty (not_v (check f m))" and m: "m \<noteq> []"
      by simp_all
    show "case x of (i, f, m) \<Rightarrow>
      \<forall>req. body_only req f \<longrightarrow>
        (field_value req Body f = Undefined \<longrightarrow>
           run_chain (AddProduct_rules ! i) req =
             [\<lparr>err_location = Body, err_param = f, err_msg = Text m, err_value = Undefined\<rparr>]) \<and>
        (\<forall>s. field_value req Body f = JStr s \<longrightarrow>
           run_chain (AddProduct_rules ! i) req =
             (if s = []
              then [\<lparr>err_location = Body, err_param = f, err_msg = Text m, err_value = JStr s\<rparr>]
              else []))"
      unfolding ifm prod.case rule
      using not_isEmpty_on_body [OF _ m] by blast
  qed
  have price_exact: "run_chain (AddProduct_rules ! 1) req =
        (if validate IsNumeric s then []
         else [\<lparr>err_location = Body, err_param = ''price'',
                err_msg = Text ''Price should be a number'', err_value = JStr s\<rparr>])"
    if "body_only req ''price''" and "field_value req Body ''price'' = JStr s" for req s
    unfolding AddProduct_rules_nth using that by (intro isNumeric_on_body) simp_all
  have forExchange_exact: "run_chain (AddProduct_rules ! 2) req =
        (if s \<in> {''true'', ''false'', ''1'', ''0''} then []
         else [\<lparr>err_location = Body, err_param = ''forExchange'',
                err_msg = Text ''ForExchange should be boolean'', err_value = JStr s\<rparr>])"
    if "body_only req ''forExchange''" and "field_value req Body ''forExchange'' = JStr s" for req s
    unfolding AddProduct_rules_nth using that by (intro isBoolean_on_body) simp_all
  have shape: "validate IsNumeric s =
      (\<exists>g d. g \<in> {[], ''+'', ''-''} \<and> d \<noteq> [] \<and> list_all (\<lambda>c. c \<in> set ''0123456789'') d \<and>
         (s = g @ d \<or> (\<exists>a. list_all (\<lambda>c. c \<in> set ''0123456789'') a \<and> s = g @ a @ CHR ''.'' # d)))"
    for s
    using numeric_pattern_shape [of s] unfolding is_digit_def [abs_def] by simp
  show ?thesis
    unfolding rules_for_AddProduct
    using list price chars forExchange images AddProduct_rules_shape required price_exact shape
      forExchange_exact
    by (intro conjI allI impI)
qed

text \<open>
  The rules on a body that holds only the \<open>price\<close> \<open>abc\<close> and the \<open>forExchange\<close> \<open>notabool\<close>,
  and the \<open>images\<close> rule on the body with two images.
\<close>

theorem AddProduct_rules_witness:
  "\<not> validate IsNumeric ''abc'' \<and>
   \<lparr>err_location = Body, err_param = ''price'', err_msg = Text ''Price should be a number'',
    err_value = JStr ''abc''\<rparr>
     \<in> set (run_chain (rules_for POST ''/AddProduct'' ! 1)
              (with_body [(''price'', JStr ''abc''), (''forExchange'', JStr ''notabool'')])) \<and>
   \<lparr>err_location = Body, err_param = ''forExchange'',
    err_msg = Text ''ForExchange should be boolean'', err_value = JStr ''notabool''\<rparr>
     \<in> set (run_chain (rules_for POST ''/AddProduct'' ! 2)
              (with_body [(''price'', JStr ''abc''), (''forExchange'', JStr ''notabool'')])) \<and>
   run_chain (rules_for POST ''/AddProduct'' ! 0)
     (with_body [(''price'', JStr ''abc''), (''forExchange'', JStr ''notabool'')]) =
     [\<lparr>err_location = Body, err_param = ''productName'', err_msg = Text ''Product name is required'',
       err_value = Undefined\<rparr>] \<and>
   run_chain (rules_for POST ''/AddProduct'' ! 1)
     (with_body [(''price'', JStr ''abc''), (''forExchange'', JStr ''notabool'')]) =
     [\<lparr>err_location = Body, err_param = ''price'', err_msg = Text ''Price should be a number'',
       err_value = JStr ''abc''\<rparr>] \<and>
   run_chain (rules_for POST ''/AddProduct'' ! 2)
     (with_body [(''price'', JStr ''abc''), (''forExchange'', JStr ''notabool'')]) =
     [\<lparr>err_location = Body, err_param = ''forExchange'',
       err_msg = Text ''ForExchange should be boolean'', err_value = JStr ''notabool''\<rparr>] \<and>
   run_chain (rules_for POST ''/AddProduct'' ! 7) two_images_request \<noteq> []"
proof -
  let ?req = "with_body [(''price'', JStr ''abc''), (''forExchange'', JStr ''notabool'')]"
  note rules = AddProduct_rules_in_order [THEN conjunct2]
  note more = rules [THEN conjunct2, THEN conjunct2, THEN conjunct2, THEN conjunct2, THEN conjunct2]
  have p: "field_value ?req Body ''price'' = JStr ''abc''"
    and f: "field_value ?req Body ''forExchange'' = JStr ''notabool''"
    and u: "field_value ?req Body ''productName'' = Undefined"
    by (simp_all add: field_value_def with_body_def)
  have i: "field_value two_images_request Body ''images'' = JArr [JStr ''a.jpg'', JStr ''b.jpg'']"
    by (simp add: field_value_def two_images_request_def with_body_def)
  have only: "body_only ?req ''price''" "body_only ?req ''forExchange''"
    "body_only ?req ''productName''"
    by code_simp+
  have c: "\<not> list_all numeric_char ''abc''"
    by (simp add: numeric_char_def)
  have b: "''notabool'' \<notin> {''true'', ''false'', ''1'', ''0''}"
    by simp
  have n: "\<not> validate IsNumeric ''abc''"
    using rules [THEN conjunct2, THEN conjunct1, THEN spec, THEN mp, OF c] .
  have member: "(0, ''productName'', ''Product name is required'')
      \<in> set [(0::nat, ''productName'', ''Product name is required''),
              (3, ''description'', ''Description is required''),
              (4, ''categoryId'', ''Category should be a number''),
              (5, ''cityId'', ''City should be a number''),
              (6, ''conditionId'', ''Condition should be a number'')]"
    by simp
  have name: "run_chain (rules_for POST ''/AddProduct'' ! 0) ?req =
     [\<lparr>err_location = Body, err_param = ''productName'', err_msg = Text ''Product name is required'',
       err_value = Undefined\<rparr>]"
    using more [THEN conjunct1, THEN bspec, OF member, unfolded prod.case, THEN spec, of ?req,
        THEN mp, OF only(3), THEN conjunct1, THEN mp, OF u] .
  have price: "run_chain (rules_for POST ''/AddProduct'' ! 1) ?req =
     [\<lparr>err_location = Body, err_param = ''price'', err_msg = Text ''Price should be a number'',
       err_value = JStr ''abc''\<rparr>]"
    using more [THEN conjunct2, THEN conjunct1, THEN spec, of ?req, THEN spec, of "''abc''",
        THEN mp, OF only(1), THEN mp, OF p] n
    by simp
  have exchange: "run_chain (rules_for POST ''/AddProduct'' ! 2) ?req =
     [\<lparr>err_location = Body, err_param = ''forExchange'',
       err_msg = Text ''ForExchange should be boolean'', err_value = JStr ''notabool''\<rparr>]"
    using more [THEN conjunct2, THEN conjunct2, THEN conjunct2, THEN spec, of ?req, THEN spec,
        of "''notabool''", THEN mp, OF only(2), THEN mp, OF f]
    by simp
  have images: "run_chain (rules_for POST ''/AddProduct'' ! 7) two_images_request \<noteq> []"
    using rules [THEN conjunct2, THEN conjunct2, THEN conjunct2, THEN conjunct1, THEN spec,
        of two_images_request, THEN spec, THEN mp, OF i]
    by simp
  note n
  moreover note rules [THEN conjunct1, THEN spec, THEN spec, THEN mp, THEN mp, OF p n]
  moreover note rules [THEN conjunct2, THEN conjunct2, THEN conjunct1, THEN spec, THEN spec,
      THEN mp, THEN mp, OF f b]
  moreover note name price exchange images
  ultimately show ?thesis
    by (intro conjI)
qed

section \<open>\<open>/EditProduct\<close> against \<open>/AddProduct\<close>\<close>



section \<open>A missing product id\<close>

lemma handle_productId_route:
  assumes "lookup ProductRouter m p =
    Some \<lparr>route_method = m, path = p, layers = [UserAuth, Validator productId_rule, Controller h]\<rparr>"
  shows "handle auth ProductRouter m p req =
     (if auth req
      then ([RanUserAuth, RanValidator ''productId'', RanController h],
            Handled h req (run_chain productId_rule req))
      else ([RanUserAuth], Unauthorized))"
  using assms by (simp add: handle_def productId_rule_def builder_defs chain_simps)

lemma lookup_productId_routes:
  "lookup ProductRouter PATCH ''/LikeProduct'' =
     Some \<lparr>route_method = PATCH, path = ''/LikeProduct'',
           layers = [UserAuth, Validator productId_rule, Controller LikeProduct]\<rparr>"
  "lookup ProductRouter PATCH ''/AddProductToCart'' =
     Some \<lparr>route_method = PATCH, path = ''/AddProductToCart'',
           layers = [UserAuth, Validator productId_rule, Controller AddProductToCart]\<rparr>"
  "lookup ProductRouter DELETE ''/DeleteProduct'' =
     Some \<lparr>route_method = DELETE, path = ''/DeleteProduct'',
           layers = [UserAuth, Validator productId_rule, Controller DeleteProduct]\<rparr>"
  by (simp_all add: lookup_simps ProductRouter_routes)

lemma productId_missing:
  assumes "list_all (\<lambda>loc. field_value req loc ''productId'' = Undefined)
             [Body, Cookies, Headers, Params, Query]"
  shows "run_chain productId_rule req =
     [\<lparr>err_location = Body, err_param = ''productId'', err_msg = Text ''Product id is required'',
       err_value = Undefined\<rparr>]"
proof -
  have "body_only req ''productId''" and body: "field_value req Body ''productId'' = Undefined"
    using assms by (simp_all add: body_only_def)
  then have "run_chain productId_rule req = run_on productId_rule [(Body, Undefined)]"
    using run_chain_check [of productId_rule req]
    by (simp add: productId_rule_def builder_defs chain_simps)
  then show ?thesis
    by (simp add: productId_rule_def run_on_not_isEmpty_Undefined pick_message_def)
qed

lemma productId_empty:
  assumes "field_value req Body ''productId'' = JStr []"
  shows "\<lparr>err_location = Body, err_param = ''productId'', err_msg = Text ''Product id is required'',
       err_value = JStr []\<rparr> \<in> set (run_chain productId_rule req)"
  using standard_error_recorded [of productId_rule IsEmpty True req "[]"] assms
  by (simp add: productId_rule_def builder_defs chain_simps pick_message_def)

text \<open>
  C6, as stated, fails: a request to \<open>PATCH /LikeProduct\<close> that passes \<open>UserAuth\<close> and has no
  \<open>productId\<close> anywhere has the error recorded, and the controller is called all the same.
\<close>

theorem missing_productId_counterexample:
  "handle accept_all ProductRouter PATCH ''/LikeProduct'' empty_request =
     ([RanUserAuth, RanValidator ''productId'', RanController LikeProduct],
      Handled LikeProduct empty_request
        [\<lparr>err_location = Body, err_param = ''productId'',
          err_msg = Text ''Product id is required'', err_value = Undefined\<rparr>])"
  by code_simp

text \<open>
  C6, amended. \<open>PATCH /LikeProduct\<close>, \<open>PATCH /AddProductToCart\<close> and \<open>DELETE /DeleteProduct\<close>
  each declare one rule, \<open>productId\<close> not empty. A request that passes \<open>UserAuth\<close> runs that
  rule and then has its controller called once, with the request and the errors the rule
  recorded. A request with no \<open>productId\<close> in any location has exactly the error "Product
  id is required" recorded, and one whose body has the empty string as \<open>productId\<close> has that
  error recorded for the body.
\<close>

theorem productId_rule_recorded_then_handled:
  "rules_for PATCH ''/LikeProduct'' = [isEmpty (not_v (check ''productId'' ''Product id is required''))] \<and>
   rules_for PATCH ''/AddProductToCart'' = [isEmpty (not_v (check ''productId'' ''Product id is required''))] \<and>
   rules_for DELETE ''/DeleteProduct'' = [isEmpty (not_v (check ''productId'' ''Product id is required''))] \<and>
   (\<forall>auth req. auth req \<longrightarrow>
      handle auth ProductRouter PATCH ''/LikeProduct'' req =
        ([RanUserAuth, RanValidator ''productId'', RanController LikeProduct],
         Handled LikeProduct req
           (run_chain (isEmpty (not_v (check ''productId'' ''Product id is required''))) req)) \<and>
      handle auth ProductRouter PATCH ''/AddProductToCart'' req =
        ([RanUserAuth, RanValidator ''productId'', RanController AddProductToCart],
         Handled AddProductToCart req
           (run_chain (isEmpty (not_v (check ''productId'' ''Product id is required''))) req)) \<and>
      handle auth ProductRouter DELETE ''/DeleteProduct'' req =
        ([RanUserAuth, RanValidator ''productId'', RanController DeleteProduct],
         Handled DeleteProduct req
           (run_chain (isEmpty (not_v (check ''productId'' ''Product id is required''))) req))) \<and>
   (\<forall>req. list_all (\<lambda>loc. field_value req loc ''productId'' = Undefined)
             [Body, Cookies, Headers, Params, Query] \<longrightarrow>
      run_chain (isEmpty (not_v (check ''productId'' ''Product id is required''))) req =
        [\<lparr>err_location = Body, err_param = ''productId'',
          err_msg = Text ''Product id is required'', err_value = Undefined\<rparr>]) \<and>
   (\<forall>req. field_value req Body ''productId'' = JStr [] \<longrightarrow>
      \<lparr>err_location = Body, err_param = ''productId'', err_msg = Text ''Product id is required'',
       err_value = JStr []\<rparr>
      \<in> set (run_chain (isEmpty (not_v (check ''productId'' ''Product id is required''))) req))"
proof -
  have rules: "rules_for PATCH ''/LikeProduct'' = [productId_rule]"
    "rules_for PATCH ''/AddProductToCart'' = [productId_rule]"
    "rules_for DELETE ''/DeleteProduct'' = [productId_rule]"
    by (simp_all add: rules_for_def lookup_productId_routes)
  note handles = lookup_productId_routes [THEN handle_productId_route]
  show ?thesis
    unfolding productId_rule_def [symmetric]
    using rules handles productId_missing productId_empty
    by simp
qed

text \<open>
  The amended statement at \<open>DELETE /DeleteProduct\<close>, for a body whose \<open>productId\<close> is the
  empty string.
\<close>

theorem productId_rule_witness:
  "handle accept_all ProductRouter DELETE ''/DeleteProduct'' (with_body [(''productId'', JStr [])]) =
     ([RanUserAuth, RanValidator ''productId'', RanController DeleteProduct],
      Handled DeleteProduct (with_body [(''productId'', JStr [])])
        (run_chain (isEmpty (not_v (check ''productId'' ''Product id is required'')))
           (with_body [(''productId'', JStr [])]))) \<and>
   \<lparr>err_location = Body, err_param = ''productId'', err_msg = Text ''Product id is required'',
    err_value = JStr []\<rparr>
     \<in> set (run_chain (isEmpty (not_v (check ''productId'' ''Product id is required'')))
              (with_body [(''productId'', JStr [])]))"
proof -
  note rest = productId_rule_recorded_then_handled [THEN conjunct2, THEN conjunct2, THEN conjunct2]
  have a: "accept_all (with_body [(''productId'', JStr [])])"
    by (simp add: accept_all_def)
  have e: "field_value (with_body [(''productId'', JStr [])]) Body ''productId'' = JStr []"
    by (simp add: field_value_def with_body_def)
  note rest [THEN conjunct1, THEN spec, of accept_all, THEN spec,
      of "with_body [(''productId'', JStr [])]", THEN mp, OF a, THEN conjunct2, THEN conjunct2]
  moreover note rest [THEN conjunct2, THEN conjunct2, THEN spec, THEN mp, OF e]
  ultimately show ?thesis
    by (intro conjI)
qed

section \<open>A complete request\<close>

lemma bike_fields:
  assumes "req_body req = bike_body"
  shows "field_value req Body ''productName'' = JStr ''Bike''"
    and "field_value req Body ''price'' = JStr ''100''"
    and "field_value req Body ''forExchange'' = JStr ''false''"
    and "field_value req Body ''description'' = JStr ''Used bike''"
    and "field_value req Body ''categoryId'' = JStr ''1''"
    and "field_value req Body ''cityId'' = JStr ''1''"
    and "field_value req Body ''conditionId'' = JStr ''1''"
    and "field_value req Body ''images'' = JArr [JStr ''a.jpg'', JStr ''b.jpg'', JStr ''c.jpg'']"
  using assms by (simp_all add: field_value_def bike_body_def)

lemma numeric_100: "validate IsNumeric ''100''"
  by code_simp

lemma bike_passes:
  assumes "req_body req = bike_body"
    and "list_all (body_only req)
          [''productName'', ''price'', ''forExchange'', ''description'', ''categoryId'', ''cityId'',
           ''conditionId'']"
  shows "concat (map (\<lambda>c. run_chain c req) AddProduct_rules) = []"
proof -
  have only: "body_only req ''productName''" "body_only req ''price''"
    "body_only req ''forExchange''" "body_only req ''description''"
    "body_only req ''categoryId''" "body_only req ''cityId''" "body_only req ''conditionId''"
    using assms(2) by simp_all
  note fields = bike_fields [OF assms(1)]
  have "run_chain (isEmpty (not_v (check ''productName'' ''Product name is required''))) req = []"
    using only fields run_chain_check [of "isEmpty (not_v (check ''productName'' ''Product name is required''))" req]
    by (simp add: builder_defs chain_simps run_on_def)
  moreover have "run_chain (isNumeric (check ''price'' ''Price should be a number'')) req = []"
    using only fields numeric_100 run_chain_check [of "isNumeric (check ''price'' ''Price should be a number'')" req]
    by (simp add: builder_defs chain_simps run_on_def)
  moreover have "run_chain (isBoolean (check ''forExchange'' ''ForExchange should be boolean'')) req = []"
    using only fields run_chain_check [of "isBoolean (check ''forExchange'' ''ForExchange should be boolean'')" req]
    by (simp add: builder_defs chain_simps run_on_def)
  moreover have "run_chain (isEmpty (not_v (check ''description'' ''Description is required''))) req = []"
    using only fields run_chain_check [of "isEmpty (not_v (check ''description'' ''Description is required''))" req]
    by (simp add: builder_defs chain_simps run_on_def)
  moreover have "run_chain (isEmpty (not_v (check ''categoryId'' ''Category should be a number''))) req = []"
    using only fields run_chain_check [of "isEmpty (not_v (check ''categoryId'' ''Category should be a number''))" req]
    by (simp add: builder_defs chain_simps run_on_def)
  moreover have "run_chain (isEmpty (not_v (check ''cityId'' ''City should be a number''))) req = []"
    using only fields run_chain_check [of "isEmpty (not_v (check ''cityId'' ''City should be a number''))" req]
    by (simp add: builder_defs chain_simps run_on_def)
  moreover have "run_chain (isEmpty (not_v (check ''conditionId'' ''Condition should be a number''))) req = []"
    using only fields run_chain_check [of "isEmpty (not_v (check ''conditionId'' ''Condition should be a number''))" req]
    by (simp add: builder_defs chain_simps run_on_def)
  moreover have "run_chain (custom AddProduct_images (body ''images'')) req = []"
    using fields
    by (simp add: run_chain_body builder_defs chain_simps run_on_images [unfolded builder_defs])
  ultimately show ?thesis
    by (simp add: AddProduct_rules_def)
qed

text \<open>
  C7. A request to \<open>POST /AddProduct\<close> that passes \<open>UserAuth\<close>, whose body is
  \<open>{productName: "Bike", price: "100", forExchange: "false", description: "Used bike",
  categoryId: "1", cityId: "1", conditionId: "1", images: ["a.jpg", "b.jpg", "c.jpg"]}\<close> and
  which carries these fields nowhere but in the body, runs all eight rules, none of which
  records an error, and has the \<open>AddProduct\<close> controller called exactly once, with the
  request as it came. (The prefix \<open>/Api/Product\<close> is where the application mounts the
  router; the router itself sees \<open>/AddProduct\<close>.)
\<close>

theorem bike_request_reaches_AddProduct:
  assumes "auth req" and "req_body req = bike_body"
    and "list_all (body_only req)
          [''productName'', ''price'', ''forExchange'', ''description'', ''categoryId'', ''cityId'',
           ''conditionId'']"
  shows "handle auth ProductRouter POST ''/AddProduct'' req =
           ([RanUserAuth, RanValidator ''productName'', RanValidator ''price'',
             RanValidator ''forExchange'', RanValidator ''description'', RanValidator ''categoryId'',
             RanValidator ''cityId'', RanValidator ''conditionId'', RanValidator ''images'',
             RanController AddProduct],
            Handled AddProduct req []) \<and>
         controller_calls (fst (handle auth ProductRouter POST ''/AddProduct'' req)) = 1"
proof -
  have "map (\<lambda>c. RanValidator (field c)) AddProduct_rules =
      [RanValidator ''productName'', RanValidator ''price'', RanValidator ''forExchange'',
       RanValidator ''description'', RanValidator ''categoryId'', RanValidator ''cityId'',
       RanValidator ''conditionId'', RanValidator ''images'']"
    by (simp add: AddProduct_rules_def builder_defs chain_simps)
  then show ?thesis
    using assms(1) bike_passes [OF assms(2,3)] by (simp add: handle_AddProduct)
qed

text \<open>The same for the sample request, with \<open>UserAuth\<close> letting every request through.\<close>

theorem bike_request_witness:
  "handle accept_all ProductRouter POST ''/AddProduct'' bike_request =
     ([RanUserAuth, RanValidator ''productName'', RanValidator ''price'',
       RanValidator ''forExchange'', RanValidator ''description'', RanValidator ''categoryId'',
       RanValidator ''cityId'', RanValidator ''conditionId'', RanValidator ''images'',
       RanController AddProduct],
      Handled AddProduct bike_request []) \<and>
   controller_calls (fst (handle accept_all ProductRouter POST ''/AddProduct'' bike_request)) = 1"
proof -
  have "accept_all bike_request"
    by (simp add: accept_all_def)
  moreover have "req_body bike_request = bike_body"
    by (simp add: bike_request_def with_body_def)
  moreover have "list_all (body_only bike_request)
      [''productName'', ''price'', ''forExchange'', ''description'', ''categoryId'', ''cityId'',
       ''conditionId'']"
    by code_simp
  ultimately show ?thesis
    by (rule bike_request_reaches_AddProduct)
qed

section \<open>Routes without rules\<close>

text \<open>
  C8. \<open>GET /GetProductById\<close>, \<open>GET /GetSellingProducts\<close> and \<open>GET /GetExchangeProducts\<close>
  declare no validation rule: the layers of each are \<open>UserAuth\<close> and then the controller,
  and a request is either turned away by \<open>UserAuth\<close> or handed to the controller with no
  error recorded. The layers of \<open>/GetSellingProducts\<close> and \<open>/GetExchangeProducts\<close> differ in
  the controller alone.
\<close>

theorem listing_routes_declare_no_rules:
  "lookup ProductRouter GET ''/GetProductById'' =
     Some \<lparr>route_method = GET, path = ''/GetProductById'',
           layers = [UserAuth, Controller GetProductById]\<rparr> \<and>
   lookup ProductRouter GET ''/GetSellingProducts'' =
     Some \<lparr>route_method = GET, path = ''/GetSellingProducts'',
           layers = [UserAuth, Controller GetSellingProducts]\<rparr> \<and>
   lookup ProductRouter GET ''/GetExchangeProducts'' =
     Some \<lparr>route_method = GET, path = ''/GetExchangeProducts'',
           layers = [UserAuth, Controller GetExchangeProducts]\<rparr> \<and>
   rules_for GET ''/GetProductById'' = [] \<and>
   rules_for GET ''/GetSellingProducts'' = [] \<and>
   rules_for GET ''/GetExchangeProducts'' = [] \<and>
   handle auth ProductRouter GET ''/GetProductById'' req =
     (if auth req then ([RanUserAuth, RanController GetProductById], Handled GetProductById req [])
      else ([RanUserAuth], Unauthorized)) \<and>
   handle auth ProductRouter GET ''/GetSellingProducts'' req =
     (if auth req
      then ([RanUserAuth, RanController GetSellingProducts], Handled GetSellingProducts req [])
      else ([RanUserAuth], Unauthorized)) \<and>
   handle auth ProductRouter GET ''/GetExchangeProducts'' req =
     (if auth req
      then ([RanUserAuth, RanController GetExchangeProducts], Handled GetExchangeProducts req [])
      else ([RanUserAuth], Unauthorized))"
  by (simp add: handle_def rules_for_def lookup_simps ProductRouter_routes)

section \<open>Identifiers are checked for presence only\<close>

lemma id_rule_cases:
  assumes "c \<in> set (AddProduct_rules @ productId_rule # AddProduct_rules)"
    and "field c \<in> {''categoryId'', ''cityId'', ''conditionId''}"
  shows "c = isEmpty (not_v (check ''categoryId'' ''Category should be a number'')) \<or>
         c = isEmpty (not_v (check ''cityId'' ''City should be a number'')) \<or>
         c = isEmpty (not_v (check ''conditionId'' ''Condition should be a number''))"
proof -
  consider "c = productId_rule" | "c \<in> set AddProduct_rules"
    using assms(1) by auto
  then show ?thesis
  proof cases
    case 1
    with assms(2) show ?thesis
      by (simp add: productId_rule_def builder_defs chain_simps)
  next
    case 2
    with assms(2) show ?thesis
      unfolding AddProduct_rules_def
      by (auto simp: builder_defs chain_simps)
  qed
qed

lemma not_isEmpty_accepts:
  assumes "s \<noteq> []"
  shows "run_on (isEmpty (not_v (check f m))) [(loc, JStr s)] = []"
  using assms by (simp add: run_on_not_isEmpty)

lemma not_isEmpty_accepts_request:
  assumes "body_only req f" and "field_value req Body f = JStr s" and "s \<noteq> []"
  shows "run_chain (isEmpty (not_v (check f m))) req = []"
  using assms run_chain_check [of "isEmpty (not_v (check f m))" req]
  by (simp add: builder_defs chain_simps run_on_def)

text \<open>
  C9. In \<open>/AddProduct\<close> and \<open>/EditProduct\<close>, the rules of \<open>categoryId\<close>, \<open>cityId\<close> and
  \<open>conditionId\<close> consist of the negated \<open>isEmpty\<close> alone: every string that is not empty,
  numeric or not, passes them, although their messages read "... should be a number".
\<close>

theorem id_rules_accept_nonempty_strings:
  "\<forall>c \<in> set (rules_for POST ''/AddProduct'' @ rules_for PUT ''/EditProduct'').
     field c \<in> {''categoryId'', ''cityId'', ''conditionId''} \<longrightarrow>
       stack c = [StandardValidation IsEmpty True] \<and>
       message c \<in> {Some ''Category should be a number'', Some ''City should be a number'',
                     Some ''Condition should be a number''} \<and>
       (\<forall>loc s. s \<noteq> [] \<longrightarrow> run_on c [(loc, JStr s)] = []) \<and>
       (\<forall>req s. body_only req (field c) \<longrightarrow> field_value req Body (field c) = JStr s \<longrightarrow>
          s \<noteq> [] \<longrightarrow> run_chain c req = [])"
proof (intro ballI impI)
  fix c
  assume "c \<in> set (rules_for POST ''/AddProduct'' @ rules_for PUT ''/EditProduct'')"
    and "field c \<in> {''categoryId'', ''cityId'', ''conditionId''}"
  then obtain f m where c: "c = isEmpty (not_v (check f m))"
    and m: "m \<in> {''Category should be a number'', ''City should be a number'',
                   ''Condition should be a number''}"
    using id_rule_cases [of c] unfolding rules_for_AddProduct rules_for_EditProduct by auto
  have "stack c = [StandardValidation IsEmpty True]" and "message c = Some m" and "field c = f"
    unfolding c by (simp_all add: builder_defs chain_simps)
  moreover have "\<forall>loc s. s \<noteq> [] \<longrightarrow> run_on c [(loc, JStr s)] = []"
    unfolding c using not_isEmpty_accepts by blast
  moreover have "\<forall>req s. body_only req f \<longrightarrow> field_value req Body f = JStr s \<longrightarrow>
          s \<noteq> [] \<longrightarrow> run_chain c req = []"
    unfolding c using not_isEmpty_accepts_request by blast
  ultimately show "stack c = [StandardValidation IsEmpty True] \<and>
       message c \<in> {Some ''Category should be a number'', Some ''City should be a number'',
                     Some ''Condition should be a number''} \<and>
       (\<forall>loc s. s \<noteq> [] \<longrightarrow> run_on c [(loc, JStr s)] = []) \<and>
       (\<forall>req s. body_only req (field c) \<longrightarrow> field_value req Body (field c) = JStr s \<longrightarrow>
          s \<noteq> [] \<longrightarrow> run_chain c req = [])"
    using m by auto
qed

text \<open>The \<open>categoryId\<close> rule of \<open>/AddProduct\<close> on the string \<open>abc\<close>.\<close>

theorem id_rules_witness:
  "message (rules_for POST ''/AddProduct'' ! 4) = Some ''Category should be a number'' \<and>
   run_on (rules_for POST ''/AddProduct'' ! 4) [(Body, JStr ''abc'')] = [] \<and>
   run_chain (rules_for POST ''/AddProduct'' ! 4) (with_body [(''categoryId'', JStr ''abc'')]) = []"
proof -
  let ?c = "rules_for POST ''/AddProduct'' ! 4"
  have c: "?c = isEmpty (not_v (check ''categoryId'' ''Category should be a number''))"
    by (simp add: rules_for_AddProduct AddProduct_rules_def)
  have "?c \<in> set (rules_for POST ''/AddProduct'' @ rules_for PUT ''/EditProduct'')"
    by (simp add: rules_for_AddProduct AddProduct_rules_def)
  moreover have f: "field ?c = ''categoryId''"
    unfolding c by (simp add: builder_defs chain_simps)
  then have "field ?c \<in> {''categoryId'', ''cityId'', ''conditionId''}"
    by simp
  ultimately have all: "(\<forall>loc s. s \<noteq> [] \<longrightarrow> run_on ?c [(loc, JStr s)] = []) \<and>
       (\<forall>req s. body_only req (field ?c) \<longrightarrow> field_value req Body (field ?c) = JStr s \<longrightarrow>
          s \<noteq> [] \<longrightarrow> run_chain ?c req = [])"
    using id_rules_accept_nonempty_strings [THEN bspec, of ?c] by blast
  have abc: "''abc'' \<noteq> []"
    by simp
  have only: "body_only (with_body [(''categoryId'', JStr ''abc'')]) (field ?c)"
    unfolding f by code_simp
  have val: "field_value (with_body [(''categoryId'', JStr ''abc'')]) Body (field ?c) = JStr ''abc''"
    unfolding f by (simp add: field_value_def with_body_def)
  have "message ?c = Some ''Category should be a number''"
    unfolding c by (simp add: builder_defs chain_simps)
  moreover note all [THEN conjunct1, THEN spec, THEN spec, THEN mp, OF abc]
  moreover note all [THEN conjunct2, THEN spec, THEN spec, THEN mp, THEN mp, THEN mp, OF only val abc]
  ultimately show ?thesis
    by (intro conjI)
qed

section \<open>The images rule looks at the length only\<close>

lemma images_rule_cases:
  assumes "c \<in> set (AddProduct_rules @ productId_rule # AddProduct_rules)"
    and "field c = ''images''"
  shows "c = custom AddProduct_images (body ''images'')"
proof -
  consider "c = productId_rule" | "c \<in> set AddProduct_rules"
    using assms(1) by auto
  then show ?thesis
  proof cases
    case 1
    with assms(2) show ?thesis
      by (simp add: productId_rule_def builder_defs chain_simps)
  next
    case 2
    with assms(2) show ?thesis
      unfolding AddProduct_rules_def
      by (auto simp: builder_defs chain_simps)
  qed
qed

lemma images_rule_accepts:
  assumes "field_value req Body ''images'' = v" and "js_length v = Inr (Some n)" and "3 \<le> n"
  shows "run_chain (custom AddProduct_images (body ''images'')) req = []"
  using assms
  by (simp add: run_chain_body builder_defs chain_simps run_on_images [unfolded builder_defs])

text \<open>
  C10. In \<open>/AddProduct\<close> and \<open>/EditProduct\<close>, the \<open>images\<close> rule never asks whether the value
  is an array: every value of the field that has a length of 3 or more, an array or a
  string alike, passes it.
\<close>

theorem images_rule_checks_length_only:
  "\<forall>c \<in> set (rules_for POST ''/AddProduct'' @ rules_for PUT ''/EditProduct'').
     field c = ''images'' \<longrightarrow>
       (\<forall>req v n. field_value req Body ''images'' = v \<longrightarrow> js_length v = Inr (Some n) \<longrightarrow>
          3 \<le> n \<longrightarrow> run_chain c req = [])"
  unfolding rules_for_AddProduct rules_for_EditProduct
  using images_rule_cases images_rule_accepts by blast

text \<open>The \<open>images\<close> rule of \<open>/EditProduct\<close> on the string \<open>abc\<close>.\<close>

theorem images_rule_witness:
  "run_chain (rules_for PUT ''/EditProduct'' ! 8) (with_body [(''images'', JStr ''abc'')]) = []"
proof -
  let ?c = "rules_for PUT ''/EditProduct'' ! 8"
  have c: "?c = custom AddProduct_images (body ''images'')"
    by (simp add: rules_for_EditProduct AddProduct_rules_def)
  have "?c \<in> set (rules_for POST ''/AddProduct'' @ rules_for PUT ''/EditProduct'')"
    by (simp add: rules_for_EditProduct rules_for_AddProduct AddProduct_rules_def)
  moreover have "field ?c = ''images''"
    unfolding c by (simp add: builder_defs chain_simps)
  ultimately have all: "\<forall>req v n. field_value req Body ''images'' = v \<longrightarrow>
      js_length v = Inr (Some n) \<longrightarrow> 3 \<le> n \<longrightarrow> run_chain ?c req = []"
    using images_rule_checks_length_only [THEN bspec, of ?c] by blast
  have "field_value (with_body [(''images'', JStr ''abc'')]) Body ''images'' = JStr ''abc''"
    by (simp add: field_value_def with_body_def)
  moreover have "js_length (JStr ''abc'') = Inr (Some 3)"
    by simp
  moreover have "(3::nat) \<le> 3"
    by simp
  ultimately show ?thesis
    using all [THEN spec, THEN spec, THEN spec, THEN mp, THEN mp, THEN mp] by blast
qed

end
